theory Spec2Isabelle
  imports Main
begin

section \<open>Values of the host language\<close>

text \<open>
  The wrapper of \<^verbatim>\<open>lib/wrapper.js\<close> (the 1.1.0 class, the first one in the file) is
  dynamically typed, so its arguments are modelled by one datatype of JavaScript values.
  Objects have an identity: a node carries a reference \<open>ref\<close>, and option objects and
  wrapper instances carry an object id. Two objects are the same object iff they are
  equal including these ids.
\<close>

datatype error = TypeError string | ReferenceError string | Error string

datatype jsclass =
  CObject | CNode | CElement | CHTMLElement | CText
  | CArray | CNodeList | CHTMLCollection | CFunction

datatype node_kind = HtmlElement | PlainElement | TextNode

datatype node = Node (ref: nat) (kind: node_kind) (tag: string) (kids: "node list")

datatype coll_kind = KArray | KNodeList | KHTMLCollection

text \<open>
  \<open>Num\<close> holds the integer-valued numbers only; \<open>Fun n\<close> is an ordinary caller-supplied
  function, \<open>ClassV c\<close> a built-in class (constructor function), \<open>Obj n\<close> any other
  object, of which only the identity is known.
\<close>

datatype jsval =
  Undefined | Null | Bool bool | Num int | Str string
  | NodeV node
  | Coll coll_kind "jsval list"
  | Fun nat
  | ClassV jsclass
  | Obj nat

datatype jstype = TUndefined | TObject | TBoolean | TNumber | TString | TFunction

fun typeof :: "jsval \<Rightarrow> jstype" where
  "typeof Undefined = TUndefined"
| "typeof Null = TObject"
| "typeof (Bool b) = TBoolean"
| "typeof (Num n) = TNumber"
| "typeof (Str s) = TString"
| "typeof (NodeV n) = TObject"
| "typeof (Coll k xs) = TObject"
| "typeof (Fun f) = TFunction"
| "typeof (ClassV c) = TFunction"
| "typeof (Obj n) = TObject"

fun truthy :: "jsval \<Rightarrow> bool" where
  "truthy Undefined = False"
| "truthy Null = False"
| "truthy (Bool b) = b"
| "truthy (Num n) = (n \<noteq> 0)"
| "truthy (Str s) = (s \<noteq> [])"
| "truthy (NodeV n) = True"
| "truthy (Coll k xs) = True"
| "truthy (Fun f) = True"
| "truthy (ClassV c) = True"
| "truthy (Obj n) = True"

text \<open>The operator \<^verbatim>\<open>a ?? b\<close>.\<close>

definition nullish :: "jsval \<Rightarrow> jsval \<Rightarrow> jsval" where
  "nullish a b = (if a = Undefined \<or> a = Null then b else a)"

text \<open>\<^verbatim>\<open>isObj\<close> of @lumjs/core: a non-null value whose \<^verbatim>\<open>typeof\<close> is "object".\<close>

definition isObj :: "jsval \<Rightarrow> bool" where
  "isObj v = (typeof v = TObject \<and> v \<noteq> Null)"

subsection \<open>Classes and \<^verbatim>\<open>instanceof\<close>\<close>

fun kind_classes :: "node_kind \<Rightarrow> jsclass list" where
  "kind_classes HtmlElement = [CHTMLElement, CElement, CNode, CObject]"
| "kind_classes PlainElement = [CElement, CNode, CObject]"
| "kind_classes TextNode = [CText, CNode, CObject]"

fun coll_classes :: "coll_kind \<Rightarrow> jsclass list" where
  "coll_classes KArray = [CArray, CObject]"
| "coll_classes KNodeList = [CNodeList, CObject]"
| "coll_classes KHTMLCollection = [CHTMLCollection, CObject]"

text \<open>The classes on the prototype chain of a value; a primitive has none.\<close>

fun classes_of :: "jsval \<Rightarrow> jsclass list" where
  "classes_of (NodeV n) = kind_classes (kind n)"
| "classes_of (Coll k xs) = coll_classes k"
| "classes_of (Fun f) = [CFunction, CObject]"
| "classes_of (ClassV c) = [CFunction, CObject]"
| "classes_of (Obj n) = [CObject]"
| "classes_of v = []"

definition instance_of :: "jsval \<Rightarrow> jsclass \<Rightarrow> bool" where
  "instance_of v c = (c \<in> set (classes_of v))"

text \<open>
  \<^verbatim>\<open>v instanceof ct\<close> for a right operand that is itself a value: a class tests the
  prototype chain, an ordinary function has none of the modelled values as instance, and
  anything that is not callable raises.
\<close>

fun instanceof :: "jsval \<Rightarrow> jsval \<Rightarrow> error + bool" where
  "instanceof v (ClassV c) = Inr (instance_of v c)"
| "instanceof v (Fun f) = Inr False"
| "instanceof v ct = Inl (TypeError ''Right-hand side of instanceof is not callable'')"

subsection \<open>Properties of values\<close>

text \<open>\<^verbatim>\<open>v.length\<close>, \<open>None\<close> standing for \<^verbatim>\<open>undefined\<close>.\<close>

fun js_length :: "jsval \<Rightarrow> nat option" where
  "js_length (Coll k xs) = Some (length xs)"
| "js_length (Str s) = Some (length s)"
| "js_length v = None"

text \<open>\<^verbatim>\<open>v[i]\<close>: out of range is \<^verbatim>\<open>undefined\<close>, and reading from a nullish value raises.\<close>

fun js_index :: "jsval \<Rightarrow> int \<Rightarrow> error + jsval" where
  "js_index (Coll k xs) i =
     Inr (if 0 \<le> i \<and> i < int (length xs) then xs ! nat i else Undefined)"
| "js_index (Str s) i =
     Inr (if 0 \<le> i \<and> i < int (length s) then Str [s ! nat i] else Undefined)"
| "js_index Undefined i = Inl (TypeError ''Cannot read properties of undefined'')"
| "js_index Null i = Inl (TypeError ''Cannot read properties of null'')"
| "js_index v i = Inr Undefined"

text \<open>\<^verbatim>\<open>for (const x of v)\<close>: the members in order; a value that is not iterable raises.\<close>

fun iterate :: "jsval \<Rightarrow> error + jsval list" where
  "iterate (Coll k xs) = Inr xs"
| "iterate (Str s) = Inr (map (\<lambda>c. Str [c]) s)"
| "iterate v = Inl (TypeError ''value is not iterable'')"

definition is_element :: "node \<Rightarrow> bool" where
  "is_element n = (kind n \<noteq> TextNode)"

text \<open>\<^verbatim>\<open>v.children\<close>: the child elements of an element, as a live collection.\<close>

fun prop_children :: "jsval \<Rightarrow> error + jsval" where
  "prop_children (NodeV n) =
     Inr (if is_element n then Coll KHTMLCollection (map NodeV (filter is_element (kids n)))
          else Undefined)"
| "prop_children Undefined = Inl (TypeError ''Cannot read properties of undefined'')"
| "prop_children Null = Inl (TypeError ''Cannot read properties of null'')"
| "prop_children v = Inr Undefined"

subsection \<open>Option objects\<close>

text \<open>
  An options object is a plain object: an identity and its own properties, a finite map
  from keys to values. \<open>WRAPPER_OPTS\<close> is the module-private symbol that marks compiled options.
\<close>

datatype key = Name string | WRAPPER_OPTS

record opts =
  oid :: nat
  props :: "key \<rightharpoonup> jsval"

text \<open>\<^verbatim>\<open>o[k]\<close>: a missing property reads as \<^verbatim>\<open>undefined\<close>.\<close>

definition opt :: "opts \<Rightarrow> key \<Rightarrow> jsval" where
  "opt ob k = (case props ob k of None \<Rightarrow> Undefined | Some v \<Rightarrow> v)"

text \<open>An argument that is either an options object or another value.\<close>

datatype arg = AOpts opts | AVal jsval

subsection \<open>Wrapper instances\<close>

record wrapper =
  wid :: nat
  wrapped :: jsval
  options :: opts
  wraps :: jsval
  isCollection :: bool
  isValid :: bool

section \<open>The world outside the wrapper\<close>

text \<open>
  Every invocation of an external collaborator is recorded, in order. The effect of the
  Content Inserter on the document is outside this model: only its invocations are kept.
\<close>

datatype call =
  CallQuerySelector jsval string
  | CallQuerySelectorAll jsval string
  | CallFind jsval "arg list"
  | CallFindWith jsval "arg list"
  | CallAddContent jsval jsval jsval
  | CallAddHTML jsval jsval jsval
  | CallAddText jsval jsval jsval

record world =
  next_id :: nat
  trace :: "call list"

definition alloc :: "world \<Rightarrow> nat \<times> world" where
  "alloc s = (next_id s, s\<lparr>next_id := Suc (next_id s)\<rparr>)"

definition emit :: "call \<Rightarrow> world \<Rightarrow> world" where
  "emit c s = s\<lparr>trace := trace s @ [c]\<rparr>"

text \<open>The result envelope of the diagnostics entry point of the Query Engine.\<close>

record find_result =
  found :: jsval
  diagnostics :: nat

text \<open>
  The collaborators of @lumjs/web-core and of the host that the wrapper calls and that are
  not part of this repository are parameters of the model:
  \<^item> \<open>VALID_TAG\<close>: the test of the bare tag name grammar;
  \<^item> \<open>parseHTML\<close>: the Markup Parser;
  \<^item> \<open>recognises\<close>: which array-like values \<^verbatim>\<open>U.isCollection(v, ct)\<close> accepts;
  \<^item> \<open>matches\<close>: the selector engine of the host, the result of
    \<^verbatim>\<open>node.querySelectorAll(selector)\<close>;
  \<^item> \<open>Q_find\<close>, \<open>Q_findWith\<close>: the two entry points of the Query Engine;
  \<^item> \<open>POS_LAST\<close>: the default insertion position;
  \<^item> \<open>def_raw\<close>: what \<^verbatim>\<open>def()\<close> does on a result that is not a wrapper instance
    (\<open>None\<close>: the property is attached);
  \<^item> \<open>global_node\<close>: the binding of the identifier \<^verbatim>\<open>node\<close> in the global scope, if any.
\<close>

record env =
  VALID_TAG :: "string \<Rightarrow> bool"
  parseHTML :: "string \<Rightarrow> arg \<Rightarrow> jsval"
  recognises :: "coll_kind \<Rightarrow> jsval list \<Rightarrow> jsval \<Rightarrow> bool"
  matches :: "node \<Rightarrow> string \<Rightarrow> node list"
  Q_find :: "jsval \<Rightarrow> arg list \<Rightarrow> jsval"
  Q_findWith :: "jsval \<Rightarrow> arg list \<Rightarrow> find_result"
  POS_LAST :: jsval
  def_raw :: "jsval \<Rightarrow> error option"
  global_node :: "jsval option"

text \<open>
  Modelled from the spec: \<^verbatim>\<open>U.isCollection\<close> of @lumjs/web-core is not part of this
  repository. A value is classified as a collection if it exposes collection semantics
  (ordered, indexable, has a length) and is recognized as a collection type; which
  array-like values are recognized is left to the parameter.
\<close>

fun U_isCollection :: "env \<Rightarrow> jsval \<Rightarrow> jsval \<Rightarrow> bool" where
  "U_isCollection e (Coll k xs) ct = recognises e k xs ct"
| "U_isCollection e v ct = False"

text \<open>\<^verbatim>\<open>document.createElement(tag)\<close>: a new element without children.\<close>

definition createElement :: "string \<Rightarrow> world \<Rightarrow> jsval \<times> world" where
  "createElement t s = (case alloc s of (i, s1) \<Rightarrow> (NodeV (Node i HtmlElement t []), s1))"

section \<open>Construction and classification\<close>

text \<open>The string branch of the constructor: a tag name or an HTML snippet.\<close>

definition resolve :: "env \<Rightarrow> jsval \<Rightarrow> opts \<Rightarrow> world \<Rightarrow> jsval \<times> world" where
  "resolve e w os s =
     (case w of
        Str t \<Rightarrow>
          if VALID_TAG e t then createElement t s
          else
            (let parseOpts = (if opt os (Name ''parse'') = Undefined
                                 \<or> opt os (Name ''parse'') = Null
                              then AOpts os else AVal (opt os (Name ''parse'')))
             in (parseHTML e t parseOpts, s))
      | _ \<Rightarrow> (w, s))"

text \<open>
  \<^verbatim>\<open>new ElementsWrapper(wraps, options)\<close>. The only failure is that of
  \<^verbatim>\<open>wraps instanceof ct\<close> when \<open>nodeClass\<close> is not callable.
\<close>

definition construct :: "env \<Rightarrow> jsval \<Rightarrow> opts \<Rightarrow> world \<Rightarrow> (error + wrapper) \<times> world" where
  "construct e w0 os s0 =
     (let ct = nullish (opt os (Name ''nodeClass'')) (ClassV CElement);
          ss = nullish (opt os (Name ''separateSingle'')) (Bool True)
      in case alloc s0 of (this, s1) \<Rightarrow>
         case resolve e w0 os s1 of (w1, s2) \<Rightarrow>
         (let isColl = U_isCollection e w1 ct;
              separate = (truthy ss \<and> isColl \<and> js_length w1 = Some 1)
          in case (if separate then js_index w1 0 else Inr w1) of
               Inl err \<Rightarrow> (Inl err, s2)
             | Inr w2 \<Rightarrow>
                 (let isColl2 = (if separate then False else isColl)
                  in case (if isColl2 \<and> (case js_length w2 of None \<Rightarrow> False | Some n \<Rightarrow> 0 < n)
                           then Inr True else instanceof w2 ct) of
                       Inl err \<Rightarrow> (Inl err, s2)
                     | Inr valid \<Rightarrow>
                         (Inr \<lparr>wid = this, wrapped = w0, options = os, wraps = w2,
                               isCollection = isColl2, isValid = valid\<rparr>, s2))))"

section \<open>Option compilation\<close>

text \<open>
  \<^verbatim>\<open>Object.assign(target, source)\<close> on own properties: every key of the source is set
  on the target.
\<close>

definition assign :: "(key \<rightharpoonup> jsval) \<Rightarrow> (key \<rightharpoonup> jsval) \<Rightarrow> (key \<rightharpoonup> jsval)" where
  "assign target source = target ++ source"

text \<open>
  \<^verbatim>\<open>getOptions(localOpts, recompile, mark)\<close>. An omitted argument is \<open>None\<close> for
  \<open>localOpts\<close> and \<open>Undefined\<close> for the other two, which then take their defaults.
\<close>

definition getOptions :: "wrapper \<Rightarrow> opts option \<Rightarrow> jsval \<Rightarrow> jsval \<Rightarrow> world \<Rightarrow> opts \<times> world" where
  "getOptions this localOpts recompile0 mark0 s =
     (let recompile = (if recompile0 = Undefined
                       then opt (options this) (Name ''recompileOptions'') else recompile0);
          mark = (if mark0 = Undefined then Bool True else mark0);
          composed = (case localOpts of None \<Rightarrow> False
                      | Some l \<Rightarrow> truthy (opt l WRAPPER_OPTS) \<and> \<not> truthy recompile)
      in case localOpts of
           Some l \<Rightarrow>
             if composed then (l, s)
             else (case alloc s of (i, s1) \<Rightarrow>
               (let compiledOpts = assign (assign Map.empty (props (options this))) (props l)
                in (\<lparr>oid = i, props = (if truthy mark
                                         then compiledOpts(WRAPPER_OPTS \<mapsto> Bool True)
                                         else compiledOpts)\<rparr>, s1)))
         | None \<Rightarrow>
             (case alloc s of (i, s1) \<Rightarrow>
               (let compiledOpts = assign Map.empty (props (options this))
                in (\<lparr>oid = i, props = (if truthy mark
                                         then compiledOpts(WRAPPER_OPTS \<mapsto> Bool True)
                                         else compiledOpts)\<rparr>, s1))))"

section \<open>The derived-instance factory\<close>

text \<open>\<^verbatim>\<open>_make(wrap, options)\<close>.\<close>

definition make_wrapper :: "env \<Rightarrow> wrapper \<Rightarrow> jsval \<Rightarrow> opts option \<Rightarrow> world \<Rightarrow> (error + wrapper) \<times> world" where
  "make_wrapper e this wrap os s =
     (case getOptions this os (Bool True) (Bool False) s of
        (compiled, s1) \<Rightarrow> construct e wrap compiled s1)"

section \<open>Traversal: children\<close>

text \<open>The nested loops of the expanded branch; \<open>children\<close> is the array being filled.\<close>

fun expand_loop :: "jsval list \<Rightarrow> jsval list \<Rightarrow> error + jsval list" where
  "expand_loop [] children = Inr children"
| "expand_loop (node # rest) children =
     (case prop_children node of
        Inl err \<Rightarrow> Inl err
      | Inr cs \<Rightarrow>
          (case iterate cs of
             Inl err \<Rightarrow> Inl err
           | Inr xs \<Rightarrow> expand_loop rest (children @ xs)))"

text \<open>The tail of the getter: the object literal \<open>makeOpts\<close>, then \<^verbatim>\<open>_make\<close>.\<close>

definition make_children :: "env \<Rightarrow> wrapper \<Rightarrow> jsval \<Rightarrow> world \<Rightarrow> (error + wrapper) \<times> world" where
  "make_children e this children s =
     (case alloc s of (i, s1) \<Rightarrow>
        (let makeOpts = \<lparr>oid = i,
                         props = [Name ''expandChildren'' \<mapsto> opt (options this) (Name ''expandChildren''),
                                  Name ''separateSingle'' \<mapsto> Bool False]\<rparr>
         in make_wrapper e this children (Some makeOpts) s1))"

definition children :: "env \<Rightarrow> wrapper \<Rightarrow> world \<Rightarrow> (error + wrapper) \<times> world" where
  "children e this s =
     (if \<not> isValid this then (Inr this, s)
      else if isCollection this then
        (if truthy (opt (options this) (Name ''expandChildren'')) then
           (case iterate (wraps this) of
              Inl err \<Rightarrow> (Inl err, s)
            | Inr nodes \<Rightarrow>
                (case expand_loop nodes [] of
                   Inl err \<Rightarrow> (Inl err, s)
                 | Inr cs \<Rightarrow> make_children e this (Coll KArray cs) s))
         else (Inr this, s))
      else
        (case prop_children (wraps this) of
           Inl err \<Rightarrow> (Inl err, s)
         | Inr cs \<Rightarrow> make_children e this cs s))"

section \<open>Lookup: get, find, query\<close>

text \<open>
  What a lookup returns: the raw value or a wrapper instance, and, when diagnostics were
  requested, the two properties \<^verbatim>\<open>$findWith\<close> and \<^verbatim>\<open>$queryOptions\<close> attached to it.
\<close>

datatype result = Raw jsval | Inst wrapper





subsection \<open>query\<close>




subsection \<open>get\<close>






subsection \<open>find\<close>




section \<open>Content mutation: add, addHTML, addText\<close>

text \<open>
  \<^verbatim>\<open>node.cloneNode(true)\<close>: a deep copy in which every node is a new object. The counter
  is the allocation counter of the world.
\<close>

fun clone :: "node \<Rightarrow> nat \<Rightarrow> node \<times> nat"
  and clone_list :: "node list \<Rightarrow> nat \<Rightarrow> node list \<times> nat" where
  "clone (Node r k t ks) i =
     (case clone_list ks (Suc i) of (ks', j) \<Rightarrow> (Node i k t ks', j))"
| "clone_list [] i = ([], i)"
| "clone_list (n # ns) i =
     (case clone n i of (n', j) \<Rightarrow>
        (case clone_list ns j of (ns', l) \<Rightarrow> (n' # ns', l)))"

definition cloneNode :: "jsval \<Rightarrow> world \<Rightarrow> (error + jsval) \<times> world" where
  "cloneNode v s =
     (case v of
        NodeV n \<Rightarrow> (case clone n (next_id s) of (n', j) \<Rightarrow> (Inr (NodeV n'), s\<lparr>next_id := j\<rparr>))
      | _ \<Rightarrow> (Inl (TypeError ''cloneNode is not a function''), s))"


text \<open>The three closures that \<^verbatim>\<open>add\<close> can bind to \<open>getContent\<close>.\<close>

datatype getter = Reuse jsval | CloneOne jsval | CloneEach "jsval list"

fun clone_each :: "jsval list \<Rightarrow> jsval list \<Rightarrow> world \<Rightarrow> (error + jsval list) \<times> world" where
  "clone_each [] clones s = (Inr clones, s)"
| "clone_each (elem # rest) clones s =
     (case cloneNode elem s of
        (Inl err, s1) \<Rightarrow> (Inl err, s1)
      | (Inr c, s1) \<Rightarrow> clone_each rest (clones @ [c]) s1)"

fun getContent :: "getter \<Rightarrow> world \<Rightarrow> (error + jsval) \<times> world" where
  "getContent (Reuse content) s = (Inr content, s)"
| "getContent (CloneOne content) s = cloneNode content s"
| "getContent (CloneEach elems) s =
     (case clone_each elems [] s of
        (Inl err, s1) \<Rightarrow> (Inl err, s1)
      | (Inr clones, s1) \<Rightarrow> (Inr (Coll KArray clones), s1))"

definition choose_getter :: "env \<Rightarrow> jsval \<Rightarrow> error + getter" where
  "choose_getter e content =
     (if typeof content = TString then Inr (Reuse content)
      else if instance_of content CElement then Inr (CloneOne content)
      else if U_isCollection e content Undefined then
        (case iterate content of Inl err \<Rightarrow> Inl err | Inr elems \<Rightarrow> Inr (CloneEach elems))
      else Inl (TypeError ''Invalid content''))"

fun add_loop :: "getter \<Rightarrow> jsval \<Rightarrow> jsval list \<Rightarrow> world \<Rightarrow> (error + unit) \<times> world" where
  "add_loop g pos [] s = (Inr (), s)"
| "add_loop g pos (node # rest) s =
     (case getContent g s of
        (Inl err, s1) \<Rightarrow> (Inl err, s1)
      | (Inr c, s1) \<Rightarrow> add_loop g pos rest (emit (CallAddContent node c pos) s1))"

text \<open>The content of \<^verbatim>\<open>add\<close> is a wrapper instance or any other value.\<close>

datatype content = CWrapper wrapper | CVal jsval

definition add :: "env \<Rightarrow> wrapper \<Rightarrow> content \<Rightarrow> jsval \<Rightarrow> world \<Rightarrow> (error + result) \<times> world" where
  "add e this content0 pos0 s =
     (let pos = (if pos0 = Undefined then POS_LAST e else pos0)
      in if \<not> isValid this then (Inr (Inst this), s)
         else
           (let content = (case content0 of CWrapper w \<Rightarrow> wraps w | CVal v \<Rightarrow> v)
            in if isCollection this then
                 (case choose_getter e content of
                    Inl err \<Rightarrow> (Inl err, s)
                  | Inr g \<Rightarrow>
                      (case iterate (wraps this) of
                         Inl err \<Rightarrow> (Inl err, s)
                       | Inr nodes \<Rightarrow>
                           (case add_loop g pos nodes s of
                              (Inl err, s1) \<Rightarrow> (Inl err, s1)
                            | (Inr u, s1) \<Rightarrow> (Inr (Inst this), s1))))
               else (Inr (Inst this), emit (CallAddContent (wraps this) content pos) s)))"



section \<open>Per-element iteration: each\<close>

text \<open>
  A callback is a pure function of its three arguments \<open>(index, node, wrapper)\<close>; the
  receiver of the call is the same value as \<open>node\<close>. It may raise.
\<close>

type_synonym callback = "nat \<Rightarrow> jsval \<Rightarrow> wrapper \<Rightarrow> error + jsval"

text \<open>The argument of \<^verbatim>\<open>each\<close>: a function with its behaviour, or a value that is not one.\<close>

datatype fnarg = Callable nat callback | NotCallable jsval

record each_result =
  info_fn :: nat
  info_node :: jsval
  info_index :: nat
  info_return :: jsval

text \<open>
  The loop of the collection branch, \<^verbatim>\<open>for (let i=0; i < node.length; i++)\<close>, over the
  indices it visits. No \<^verbatim>\<open>node\<close> is declared in that block (the \<^verbatim>\<open>const node\<close> of the
  other branch is scoped to its own block), so the identifier is resolved in the global
  scope; the members of \<^verbatim>\<open>this.wraps\<close> are not read.
\<close>

fun each_loop :: "nat \<Rightarrow> callback \<Rightarrow> wrapper \<Rightarrow> jsval \<Rightarrow> nat list \<Rightarrow> each_result list
    \<Rightarrow> error + each_result list" where
  "each_loop f cb this node [] results = Inr results"
| "each_loop f cb this node (i # rest) results =
     (case cb i node this of
        Inl err \<Rightarrow> Inl err
      | Inr r \<Rightarrow>
          each_loop f cb this node rest
            (results @ [\<lparr>info_fn = f, info_node = node, info_index = i, info_return = r\<rparr>]))"

definition each :: "env \<Rightarrow> wrapper \<Rightarrow> fnarg \<Rightarrow> error + each_result list" where
  "each e this fn =
     (case fn of
        NotCallable v \<Rightarrow> Inl (TypeError ''Invalid function'')
      | Callable f cb \<Rightarrow>
          if \<not> isValid this then Inr []
          else if isCollection this then
            (case global_node e of
               None \<Rightarrow> Inl (ReferenceError ''node is not defined'')
             | Some node \<Rightarrow>
                 if node = Undefined \<or> node = Null
                 then Inl (TypeError ''Cannot read properties of undefined (reading length)'')
                 else (case js_length node of
                         None \<Rightarrow> Inr []
                       | Some n \<Rightarrow> each_loop f cb this node [0..<n] []))
          else
            (let node = wraps this
             in case cb 0 node this of
                  Inl err \<Rightarrow> Inl err
                | Inr r \<Rightarrow>
                    Inr [\<lparr>info_fn = f, info_node = node, info_index = 0, info_return = r\<rparr>]))"

section \<open>A concrete host\<close>

text \<open>
  One instance of the collaborators, on which the properties below are also evaluated:
  a selector is a tag name and matches the descendant elements with that tag, in document
  order; every array-like value is recognized as a collection; a bare tag name is a
  non-empty word of lower-case letters; the Query Engine finds nothing; no global
  \<^verbatim>\<open>node\<close> is bound.
\<close>

fun descendants :: "node \<Rightarrow> node list"
  and descendants_list :: "node list \<Rightarrow> node list" where
  "descendants (Node r k t ks) = descendants_list ks"
| "descendants_list [] = []"
| "descendants_list (n # ns) = n # descendants n @ descendants_list ns"

definition host :: env where
  "host = \<lparr>VALID_TAG = (\<lambda>t. t \<noteq> [] \<and> list_all (\<lambda>c. c \<in> set ''abcdefghijklmnopqrstuvwxyz'') t),
           parseHTML = (\<lambda>t a. Coll KArray []),
           recognises = (\<lambda>k xs ct. True),
           matches = (\<lambda>n sel. filter (\<lambda>m. is_element m \<and> tag m = sel) (descendants n)),
           Q_find = (\<lambda>v args. Null),
           Q_findWith = (\<lambda>v args. \<lparr>found = Null, diagnostics = 0\<rparr>),
           POS_LAST = Str ''beforeend'',
           def_raw = (\<lambda>v. if isObj v then None
                           else Some (TypeError ''Object.defineProperty called on non-object'')),
           global_node = None\<rparr>"

text \<open>Two \<^verbatim>\<open>div\<close> elements: \<open>nodeA\<close> holds one paragraph, \<open>nodeB\<close> two.\<close>

definition a1 :: node where "a1 = Node 3 HtmlElement ''p'' []"
definition b1 :: node where "b1 = Node 4 HtmlElement ''p'' []"
definition b2 :: node where "b2 = Node 5 HtmlElement ''p'' []"
definition nodeA :: node where "nodeA = Node 1 HtmlElement ''div'' [a1]"
definition nodeB :: node where "nodeB = Node 2 HtmlElement ''div'' [Node 6 TextNode ''x'' [], b1, b2]"

definition world0 :: world where
  "world0 = \<lparr>next_id = 20, trace = []\<rparr>"

definition no_opts :: opts where
  "no_opts = \<lparr>oid = 9, props = Map.empty\<rparr>"

text \<open>The wrapper of the collection \<open>[nodeA, nodeB]\<close> and the wrapper of \<^verbatim>\<open>null\<close>.\<close>

definition pairAB :: wrapper where
  "pairAB = \<lparr>wid = 10, wrapped = Coll KArray [NodeV nodeA, NodeV nodeB], options = no_opts,
             wraps = Coll KArray [NodeV nodeA, NodeV nodeB], isCollection = True, isValid = True\<rparr>"

definition nothing :: wrapper where
  "nothing = \<lparr>wid = 11, wrapped = Null, options = no_opts, wraps = Null,
              isCollection = False, isValid = False\<rparr>"

definition count_cb :: callback where
  "count_cb i v w = Inr (Num (int i))"

text \<open>Option objects: a base with \<open>wrapQueries\<close> set, an override, a compiled override.\<close>

definition wq_opts :: opts where
  "wq_opts = \<lparr>oid = 12, props = [Name ''wrapQueries'' \<mapsto> Bool True]\<rparr>"

definition wq_off :: opts where
  "wq_off = \<lparr>oid = 13, props = [Name ''wrapQueries'' \<mapsto> Bool False]\<rparr>"

definition wq_marked :: opts where
  "wq_marked = \<lparr>oid = 14, props = [Name ''wrapQueries'' \<mapsto> Bool False,
                                      WRAPPER_OPTS \<mapsto> Bool True]\<rparr>"

definition keep_single :: opts where
  "keep_single = \<lparr>oid = 16, props = [Name ''separateSingle'' \<mapsto> Bool False]\<rparr>"

definition array_class :: opts where
  "array_class = \<lparr>oid = 17, props = [Name ''nodeClass'' \<mapsto> ClassV CArray]\<rparr>"

text \<open>The wrapper of the single element \<open>nodeA\<close>, with \<open>wq_opts\<close> as its options.\<close>

definition single :: wrapper where
  "single = \<lparr>wid = 15, wrapped = NodeV nodeA, options = wq_opts, wraps = NodeV nodeA,
             isCollection = False, isValid = True\<rparr>"






section \<open>The concrete instances are what the constructor builds\<close>

lemma construct_pairAB:
  "construct host (Coll KArray [NodeV nodeA, NodeV nodeB]) no_opts (world0\<lparr>next_id := 10\<rparr>)
     = (Inr pairAB, world0\<lparr>next_id := 11\<rparr>)"
  by (simp add: construct_def alloc_def resolve_def host_def no_opts_def world0_def pairAB_def
      opt_def nullish_def Let_def)

lemma construct_nothing:
  "construct host Null no_opts (world0\<lparr>next_id := 11\<rparr>) = (Inr nothing, world0\<lparr>next_id := 12\<rparr>)"
  by (simp add: construct_def alloc_def resolve_def host_def no_opts_def world0_def nothing_def
      opt_def nullish_def Let_def instance_of_def)

section \<open>Construction: validity and collapse\<close>

text \<open>
  Wrapping an empty collection: nothing is collapsed, so the instance is valid exactly
  when the collection object itself is an instance of the node class.
\<close>

lemma construct_empty:
  "construct e (Coll k []) os s =
     (case instanceof (Coll k []) (nullish (opt os (Name ''nodeClass'')) (ClassV CElement)) of
        Inl err \<Rightarrow> (Inl err, s\<lparr>next_id := Suc (next_id s)\<rparr>)
      | Inr v \<Rightarrow> (Inr \<lparr>wid = next_id s, wrapped = Coll k [], options = os, wraps = Coll k [],
                 isCollection = recognises e k [] (nullish (opt os (Name ''nodeClass'')) (ClassV CElement)),
                 isValid = v\<rparr>, s\<lparr>next_id := Suc (next_id s)\<rparr>))"
  by (simp add: construct_def alloc_def resolve_def Let_def split: sum.splits)

text \<open>
  C3, as amended. For every options record whose node class (\<open>nodeClass\<close>, by default
  Element) does not have the empty collection object itself as an instance, which is the
  case for the default and for every class of nodes, constructing a wrapper around an
  empty collection yields an instance with is-valid false, whatever the other options and
  whether or not the collection is recognized.
\<close>

theorem C3_empty_collection_invalid:
  assumes "instanceof (Coll k []) (nullish (opt os (Name ''nodeClass'')) (ClassV CElement)) = Inr False"
  shows "\<exists>w. fst (construct e (Coll k []) os s) = Inr w \<and> \<not> isValid w"
  using assms by (simp add: construct_empty)

theorem C3_witness:
  "instanceof (Coll KArray []) (nullish (opt no_opts (Name ''nodeClass'')) (ClassV CElement)) = Inr False
   \<and> (\<exists>w. fst (construct host (Coll KArray []) no_opts world0) = Inr w \<and> \<not> isValid w)"
proof -
  have h: "instanceof (Coll KArray []) (nullish (opt no_opts (Name ''nodeClass'')) (ClassV CElement)) = Inr False"
    by (simp add: no_opts_def opt_def nullish_def instance_of_def)
  from h C3_empty_collection_invalid [OF h, of host world0] show ?thesis by blast
qed

text \<open>
  The claim as stated, for any choice of \<open>nodeClass\<close>, fails: with \<open>nodeClass\<close> the
  class of arrays, the wrapper of the empty array is valid.
\<close>

theorem C3_counterexample:
  "construct host (Coll KArray []) array_class world0
     = (Inr \<lparr>wid = 20, wrapped = Coll KArray [], options = array_class,
             wraps = Coll KArray [], isCollection = True, isValid = True\<rparr>,
        \<lparr>next_id = 21, trace = []\<rparr>)"
  by (simp add: construct_empty opt_def nullish_def instance_of_def host_def world0_def array_class_def)

text \<open>
  C4. For a collection of exactly one node that is recognized as a collection and whose
  member passes the capability check: with collapse-single enabled (the default) the
  instance is not a collection and its target is the sole node; with collapse-single
  disabled it is a collection. In both cases it is valid.
\<close>

theorem C4_collapse_law:
  assumes "recognises e k [NodeV n] (nullish (opt os (Name ''nodeClass'')) (ClassV CElement))"
    and "instanceof (NodeV n) (nullish (opt os (Name ''nodeClass'')) (ClassV CElement)) = Inr True"
  shows "construct e (Coll k [NodeV n]) os s =
     (Inr \<lparr>wid = next_id s, wrapped = Coll k [NodeV n], options = os,
           wraps = (if truthy (nullish (opt os (Name ''separateSingle'')) (Bool True))
                    then NodeV n else Coll k [NodeV n]),
           isCollection = (\<not> truthy (nullish (opt os (Name ''separateSingle'')) (Bool True))),
           isValid = True\<rparr>,
      s\<lparr>next_id := Suc (next_id s)\<rparr>)"
  using assms by (simp add: construct_def alloc_def resolve_def Let_def)

theorem C4_witness:
  "construct host (Coll KNodeList [NodeV nodeA]) no_opts world0 =
       (Inr \<lparr>wid = 20, wrapped = Coll KNodeList [NodeV nodeA], options = no_opts,
             wraps = NodeV nodeA, isCollection = False, isValid = True\<rparr>,
        world0\<lparr>next_id := 21\<rparr>)
   \<and> construct host (Coll KNodeList [NodeV nodeA]) keep_single world0 =
       (Inr \<lparr>wid = 20, wrapped = Coll KNodeList [NodeV nodeA], options = keep_single,
             wraps = Coll KNodeList [NodeV nodeA], isCollection = True, isValid = True\<rparr>,
        world0\<lparr>next_id := 21\<rparr>)"
proof -
  have c1: "nullish (opt no_opts (Name ''nodeClass'')) (ClassV CElement) = ClassV CElement"
    by (simp add: no_opts_def opt_def nullish_def)
  have c2: "nullish (opt keep_single (Name ''nodeClass'')) (ClassV CElement) = ClassV CElement"
    by (simp add: keep_single_def opt_def nullish_def)
  have rec: "recognises host KNodeList [NodeV nodeA] (ClassV CElement)"
    by (simp add: host_def)
  have inst: "instanceof (NodeV nodeA) (ClassV CElement) = Inr True"
    by (simp add: instance_of_def nodeA_def)
  have s1: "truthy (nullish (opt no_opts (Name ''separateSingle'')) (Bool True))"
    by (simp add: no_opts_def opt_def nullish_def)
  have s2: "\<not> truthy (nullish (opt keep_single (Name ''separateSingle'')) (Bool True))"
    by (simp add: keep_single_def opt_def nullish_def)
  have n: "next_id world0 = 20" by (simp add: world0_def)
  have 1: "construct host (Coll KNodeList [NodeV nodeA]) no_opts world0 =
       (Inr \<lparr>wid = 20, wrapped = Coll KNodeList [NodeV nodeA], options = no_opts,
             wraps = NodeV nodeA, isCollection = False, isValid = True\<rparr>,
        world0\<lparr>next_id := 21\<rparr>)"
    using C4_collapse_law [of host KNodeList nodeA no_opts world0] rec inst s1 n
    by (simp add: c1)
  have 2: "construct host (Coll KNodeList [NodeV nodeA]) keep_single world0 =
       (Inr \<lparr>wid = 20, wrapped = Coll KNodeList [NodeV nodeA], options = keep_single,
             wraps = Coll KNodeList [NodeV nodeA], isCollection = True, isValid = True\<rparr>,
        world0\<lparr>next_id := 21\<rparr>)"
    using C4_collapse_law [of host KNodeList nodeA keep_single world0] rec inst s2 n
    by (simp add: c2)
  from 1 2 show ?thesis by blast
qed

section \<open>Traversal\<close>

text \<open>
  C5. On an invalid instance, and on a collection with expand-children disabled, the
  \<open>children\<close> getter returns the very same instance (same identity, same fields) and
  allocates nothing: the world is unchanged. Applying it to its result gives that
  instance again.
\<close>

theorem C5_children_same_instance:
  assumes "\<not> isValid w \<or> (isCollection w \<and> \<not> truthy (opt (options w) (Name ''expandChildren'')))"
  shows "children e w s = (Inr w, s)
         \<and> (\<forall>c s1. children e w s = (Inr c, s1) \<longrightarrow> children e c s1 = (Inr w, s))"
proof -
  have "children e w s = (Inr w, s)"
    using assms by (auto simp: children_def)
  then show ?thesis by simp
qed

theorem C5_witness:
  "\<not> isValid nothing \<and> children host nothing world0 = (Inr nothing, world0)
   \<and> isCollection pairAB
   \<and> \<not> truthy (opt (options pairAB) (Name ''expandChildren''))
   \<and> children host pairAB world0 = (Inr pairAB, world0)"
proof -
  have a: "\<not> isValid nothing" by (simp add: nothing_def)
  have b: "isCollection pairAB \<and> \<not> truthy (opt (options pairAB) (Name ''expandChildren''))"
    by (simp add: pairAB_def no_opts_def opt_def)
  from a have "\<not> isValid nothing \<or> (isCollection nothing \<and> \<not> truthy (opt (options nothing) (Name ''expandChildren'')))" by simp
  note r1 = C5_children_same_instance [OF this, of host world0]
  from b have "\<not> isValid pairAB \<or> (isCollection pairAB \<and> \<not> truthy (opt (options pairAB) (Name ''expandChildren'')))" by simp
  note r2 = C5_children_same_instance [OF this, of host world0]
  from a b r1 r2 show ?thesis by blast
qed

section \<open>Option compilation\<close>

lemma getOptions_composed:
  assumes "truthy (opt l WRAPPER_OPTS)"
    and "\<not> truthy (if recompile = Undefined then opt (options w) (Name ''recompileOptions'')
                    else recompile)"
  shows "getOptions w (Some l) recompile mark s = (l, s)"
  using assms by (simp add: getOptions_def Let_def)

lemma getOptions_compile_local:
  assumes "\<not> (truthy (opt l WRAPPER_OPTS)
      \<and> \<not> truthy (if recompile = Undefined then opt (options w) (Name ''recompileOptions'')
                    else recompile))"
  shows "getOptions w (Some l) recompile mark s =
     (\<lparr>oid = next_id s,
       props = (if truthy (if mark = Undefined then Bool True else mark)
                then (props (options w) ++ props l)(WRAPPER_OPTS \<mapsto> Bool True)
                else props (options w) ++ props l)\<rparr>,
      s\<lparr>next_id := Suc (next_id s)\<rparr>)"
proof (cases "truthy (opt l WRAPPER_OPTS)")
  case True
  with assms have "truthy (if recompile = Undefined
      then opt (options w) (Name ''recompileOptions'') else recompile)" by simp
  then show ?thesis by (simp add: getOptions_def alloc_def assign_def Let_def)
next
  case False
  then show ?thesis by (simp add: getOptions_def alloc_def assign_def Let_def)
qed

lemma getOptions_compile_none:
  "getOptions w None recompile mark s =
     (\<lparr>oid = next_id s,
       props = (if truthy (if mark = Undefined then Bool True else mark)
                then (props (options w))(WRAPPER_OPTS \<mapsto> Bool True)
                else props (options w))\<rparr>,
      s\<lparr>next_id := Suc (next_id s)\<rparr>)"
  by (simp add: getOptions_def alloc_def assign_def Let_def)

text \<open>
  C9. \<^verbatim>\<open>getOptions(local, recompile, mark)\<close> returns \<open>local\<close> itself, allocating
  nothing, when \<open>local\<close> carries the marker and \<open>recompile\<close> (by default the
  \<open>recompileOptions\<close> option of the instance) is not true. Otherwise it returns a new
  object in which every option key present in \<open>local\<close> has the value of \<open>local\<close> and
  every other option key has the value of the base options; the hidden marker is set on
  it when \<open>mark\<close> (by default true) is true.
\<close>

theorem C9_getOptions:
  "((case localOpts of None \<Rightarrow> False | Some l \<Rightarrow> truthy (opt l WRAPPER_OPTS))
      \<and> \<not> truthy (if recompile = Undefined then opt (options w) (Name ''recompileOptions'')
                    else recompile)
     \<longrightarrow> (\<exists>l. localOpts = Some l \<and> getOptions w localOpts recompile mark s = (l, s)))
   \<and> (\<not> ((case localOpts of None \<Rightarrow> False | Some l \<Rightarrow> truthy (opt l WRAPPER_OPTS))
          \<and> \<not> truthy (if recompile = Undefined then opt (options w) (Name ''recompileOptions'')
                        else recompile))
     \<longrightarrow> (\<exists>res. getOptions w localOpts recompile mark s = (res, s\<lparr>next_id := Suc (next_id s)\<rparr>)
            \<and> oid res = next_id s
            \<and> (\<forall>k. k \<noteq> WRAPPER_OPTS \<longrightarrow>
                 props res k =
                   (case (case localOpts of None \<Rightarrow> None | Some l \<Rightarrow> props l k) of
                      Some v \<Rightarrow> Some v
                    | None \<Rightarrow> props (options w) k))
            \<and> (truthy (if mark = Undefined then Bool True else mark)
                 \<longrightarrow> props res WRAPPER_OPTS = Some (Bool True))))"
proof (cases localOpts)
  case None
  show ?thesis unfolding None getOptions_compile_none by simp
next
  case (Some l)
  show ?thesis
  proof (cases "truthy (opt l WRAPPER_OPTS)
      \<and> \<not> truthy (if recompile = Undefined then opt (options w) (Name ''recompileOptions'')
                    else recompile)")
    case True
    then have "getOptions w (Some l) recompile mark s = (l, s)"
      by (simp add: getOptions_composed)
    with True show ?thesis unfolding Some option.case by blast
  next
    case False
    note eq = getOptions_compile_local [OF False]
    have "\<exists>res. getOptions w (Some l) recompile mark s = (res, s\<lparr>next_id := Suc (next_id s)\<rparr>)
            \<and> oid res = next_id s
            \<and> (\<forall>k. k \<noteq> WRAPPER_OPTS \<longrightarrow>
                 props res k =
                   (case props l k of Some v \<Rightarrow> Some v | None \<Rightarrow> props (options w) k))
            \<and> (truthy (if mark = Undefined then Bool True else mark)
                 \<longrightarrow> props res WRAPPER_OPTS = Some (Bool True))"
      unfolding eq by (simp add: map_add_def split: option.splits)
    with False show ?thesis unfolding Some option.case by blast
  qed
qed

theorem C9_witness:
  "getOptions single (Some wq_marked) Undefined Undefined world0 = (wq_marked, world0)
   \<and> (\<exists>res. getOptions single (Some wq_off) Undefined Undefined world0
               = (res, world0\<lparr>next_id := Suc (next_id world0)\<rparr>)
          \<and> oid res = next_id world0
          \<and> props res (Name ''wrapQueries'') = Some (Bool False))
   \<and> (\<exists>res. getOptions single None Undefined Undefined world0
               = (res, world0\<lparr>next_id := Suc (next_id world0)\<rparr>)
          \<and> props res (Name ''wrapQueries'') = Some (Bool True))"
proof -
  have m: "truthy (opt wq_marked WRAPPER_OPTS)" by (simp add: wq_marked_def opt_def)
  have n: "\<not> truthy (opt wq_off WRAPPER_OPTS)" by (simp add: wq_off_def opt_def)
  have r: "\<not> truthy (opt (options single) (Name ''recompileOptions''))"
    by (simp add: single_def wq_opts_def opt_def)
  have p1: "props wq_off (Name ''wrapQueries'') = Some (Bool False)" by (simp add: wq_off_def)
  have p2: "props (options single) (Name ''wrapQueries'') = Some (Bool True)"
    by (simp add: single_def wq_opts_def)
  have 1: "getOptions single (Some wq_marked) Undefined Undefined world0 = (wq_marked, world0)"
    using C9_getOptions [of "Some wq_marked" Undefined single Undefined world0] m r by simp
  have 2: "\<exists>res. getOptions single (Some wq_off) Undefined Undefined world0
               = (res, world0\<lparr>next_id := Suc (next_id world0)\<rparr>)
          \<and> oid res = next_id world0
          \<and> props res (Name ''wrapQueries'') = Some (Bool False)"
    using C9_getOptions [of "Some wq_off" Undefined single Undefined world0] n p1 by auto
  have 3: "\<exists>res. getOptions single None Undefined Undefined world0
               = (res, world0\<lparr>next_id := Suc (next_id world0)\<rparr>)
          \<and> props res (Name ''wrapQueries'') = Some (Bool True)"
    using C9_getOptions [of None Undefined single Undefined world0] p2 by auto
  from 1 2 3 show ?thesis by blast
qed

section \<open>Per-element iteration\<close>

text \<open>
  C1. The claim is that \<^verbatim>\<open>each(fn)\<close> on a valid collection invokes \<open>fn\<close> once per member,
  in order, and returns one record per member. The code does not: on the valid
  two-member collection \<open>[nodeA, nodeB]\<close>, with a callable \<open>fn\<close>, the collection branch
  reads the undeclared identifier \<^verbatim>\<open>node\<close> and raises a ReferenceError before \<open>fn\<close> is
  called at all.
\<close>

theorem C1_each_collection_raises:
  "each host pairAB (Callable 0 count_cb) = Inl (ReferenceError ''node is not defined'')"
  by (simp add: each_def pairAB_def host_def)

section \<open>Lookup on an invalid instance\<close>














section \<open>Selector lookup on a collection\<close>





lemma construct_wrapped:
  assumes "construct e v os s = (Inr w', s')"
  shows "wrapped w' = v \<and> options w' = os \<and> wid w' = next_id s"
proof -
  obtain w1 s2 where r: "resolve e v os (s\<lparr>next_id := Suc (next_id s)\<rparr>) = (w1, s2)"
    by (cases "resolve e v os (s\<lparr>next_id := Suc (next_id s)\<rparr>)")
  from assms show ?thesis
    by (simp add: construct_def alloc_def r Let_def split: sum.splits) auto
qed

lemma make_wrapped:
  assumes "make_wrapper e w v l s = (Inr w', s')"
  shows "wrapped w' = v"
proof -
  obtain compiled s1 where g: "getOptions w l (Bool True) (Bool False) s = (compiled, s1)"
    by (cases "getOptions w l (Bool True) (Bool False) s")
  from assms have "construct e v compiled s1 = (Inr w', s')"
    by (simp add: make_wrapper_def g)
  then show ?thesis by (simp add: construct_wrapped)
qed














section \<open>Content mutation\<close>

















section \<open>Instances built by the constructor\<close>

text \<open>
  The properties above that speak of a collection instance assume that its target is a
  collection value. Every instance that the constructor builds satisfies this.
\<close>

lemma U_isCollection_Coll:
  assumes "U_isCollection e v ct"
  obtains k xs where "v = Coll k xs"
  using assms by (cases v) simp_all

lemma construct_collection_target:
  assumes "construct e v os s = (Inr w, s')" and "isCollection w"
  shows "\<exists>k ms. wraps w = Coll k ms"
proof -
  let ?ct = "nullish (opt os (Name ''nodeClass'')) (ClassV CElement)"
  let ?ss = "nullish (opt os (Name ''separateSingle'')) (Bool True)"
  obtain w1 s2 where r: "resolve e v os (s\<lparr>next_id := Suc (next_id s)\<rparr>) = (w1, s2)"
    by (cases "resolve e v os (s\<lparr>next_id := Suc (next_id s)\<rparr>)")
  let ?sep = "truthy ?ss \<and> U_isCollection e w1 ?ct \<and> js_length w1 = Some 1"
  show ?thesis
  proof (cases ?sep)
    case True
    with assms show ?thesis
      by (simp add: construct_def alloc_def r Let_def split: sum.splits) auto
  next
    case False
    with assms have "U_isCollection e w1 ?ct \<and> wraps w = w1"
      by (simp add: construct_def alloc_def r Let_def split: sum.splits if_splits) auto
    then show ?thesis by (auto elim: U_isCollection_Coll)
  qed
qed

text \<open>
  The failure of \<^verbatim>\<open>each\<close> does not depend on the collection: on every valid collection,
  with no global \<^verbatim>\<open>node\<close>, a callable argument leads to the ReferenceError.
\<close>

lemma each_collection_raises:
  assumes "isValid w" and "isCollection w" and "global_node e = None"
  shows "each e w (Callable f cb) = Inl (ReferenceError ''node is not defined'')"
  using assms by (simp add: each_def)

end
